theory Spec2Isabelle
  imports Main "HOL-Library.Sublist"
begin

section \<open>podctl: a shallow embedding of \<^verbatim>\<open>podctl.py\<close>\<close>

text \<open>
  Conventions of the embedding.
  \<^item> A Python \<^verbatim>\<open>str\<close> is a \<open>string\<close>; a \<open>char\<close> stands for one code point in the
    range U+0000..U+00FF.
  \<^item> Python integers are \<open>int\<close>. A \<^verbatim>\<open>datetime\<close> is an \<open>int\<close> counting microseconds
    (the resolution of \<^verbatim>\<open>datetime\<close>), and so is a \<^verbatim>\<open>timedelta\<close>.
  \<^item> Every exception of class \<^verbatim>\<open>Exception\<close> is a value of type \<open>exn\<close>; a method that
    may raise returns \<open>exn + 'a\<close> next to the object as it stands when the method
    is left, so the mutations done before a \<^verbatim>\<open>raise\<close> stay visible.
  \<^item> What a method does to the outside (standard output, the socket, the log) is
    returned as a list of \<open>event\<close>s, oldest first.
  \<^item> What the outside does to a method (a socket call that returns or raises, the
    reading of the clock) is an argument of the method.
\<close>

subsection \<open>Exceptions and outcomes\<close>

datatype exn =
    ValueError
  | IndexError
  | AttributeError string
  | OSError string

text \<open>The outcome of a call into the socket library.\<close>

datatype 'a outcome = Returns 'a | Raises exn

subsection \<open>Strings\<close>

text \<open>\<^verbatim>\<open>sub in data\<close> on strings: \<open>sub\<close> occurs as a contiguous run of \<open>data\<close>.\<close>

fun contains :: "string \<Rightarrow> string \<Rightarrow> bool" where
  "contains [] sub = (sub = [])"
| "contains (c # cs) sub = (prefix sub (c # cs) \<or> contains cs sub)"

text \<open>
  \<^verbatim>\<open>data.split(sep)\<close> for a separator of one character: every occurrence of the
  separator ends a field, empty fields are kept, and the result is never empty.
\<close>

fun str_split :: "char \<Rightarrow> string \<Rightarrow> string list" where
  "str_split sep [] = [] # []"
| "str_split sep (c # cs) =
     (if c = sep then [] # str_split sep cs
      else (case str_split sep cs of
              f # fs \<Rightarrow> (c # f) # fs
            | [] \<Rightarrow> [c] # []))"

text \<open>\<^verbatim>\<open>xs[i]\<close> for \<open>i \<ge> 0\<close>: \<^verbatim>\<open>IndexError\<close> out of range.\<close>

definition index :: "'a list \<Rightarrow> nat \<Rightarrow> exn + 'a" where
  "index xs i = (if i < length xs then Inr (xs ! i) else Inl IndexError)"

text \<open>
  White space as \<^verbatim>\<open>str.isspace\<close> sees it on U+0000..U+00FF: the characters 09..0D,
  1C..1F, 20, 85 and A0. It is what \<^verbatim>\<open>s.rstrip()\<close> removes.
\<close>

definition isspace :: "char \<Rightarrow> bool" where
  "isspace c =
     (let n = of_char c :: nat
      in (9 \<le> n \<and> n \<le> 13) \<or> (28 \<le> n \<and> n \<le> 32) \<or> n = 133 \<or> n = 160)"

definition str_rstrip :: "string \<Rightarrow> string" where
  "str_rstrip s = rev (dropWhile isspace (rev s))"

text \<open>
  White space as \<^verbatim>\<open>int(s)\<close> skips it around a literal, on U+0000..U+00FF: the
  characters 09..0D and 20, and the two spaces 85 and A0 beyond ASCII, which
  \<^verbatim>\<open>int\<close> turns into blanks first. Unlike \<^verbatim>\<open>str.isspace\<close> it does not hold of
  1C..1F: \<^verbatim>\<open>int("\x1c6")\<close> raises.
\<close>

definition int_isspace :: "char \<Rightarrow> bool" where
  "int_isspace c =
     (let n = of_char c :: nat
      in (9 \<le> n \<and> n \<le> 13) \<or> n = 32 \<or> n = 133 \<or> n = 160)"

definition int_strip :: "string \<Rightarrow> string" where
  "int_strip s = rev (dropWhile int_isspace (rev (dropWhile int_isspace s)))"

definition isdigit :: "char \<Rightarrow> bool" where
  "isdigit c = (let n = of_char c :: nat in 48 \<le> n \<and> n \<le> 57)"

definition digit_val :: "char \<Rightarrow> nat" where
  "digit_val c = of_char c - 48"

text \<open>
  The digits of a decimal literal after its first digit: a digit, or one underscore
  followed by a digit (\<^verbatim>\<open>int("1_000") == 1000\<close>, \<^verbatim>\<open>int("1__0")\<close> and \<^verbatim>\<open>int("1_")\<close>
  raise).
\<close>

fun digits_acc :: "nat \<Rightarrow> string \<Rightarrow> nat option" where
  "digits_acc acc [] = Some acc"
| "digits_acc acc (c # cs) =
     (if isdigit c then digits_acc (acc * 10 + digit_val c) cs
      else if c = CHR ''_'' then
        (case cs of
           [] \<Rightarrow> None
         | d # ds \<Rightarrow> if isdigit d then digits_acc (acc * 10 + digit_val d) ds else None)
      else None)"

definition digits :: "string \<Rightarrow> nat option" where
  "digits s =
     (case s of
        [] \<Rightarrow> None
      | c # cs \<Rightarrow> if isdigit c then digits_acc (digit_val c) cs else None)"

text \<open>
  The interpreter's bound on the decimal digits of an integer text,
  \<^verbatim>\<open>sys.int_info.default_max_str_digits\<close>. The program does not change it.
\<close>

definition max_str_digits :: nat where
  "max_str_digits = 4300"

text \<open>
  A decimal literal without its sign: more than \<open>max_str_digits\<close> digits are
  refused, leading zeros counted and underscores not.
\<close>

definition literal :: "string \<Rightarrow> nat option" where
  "literal s = (if length (filter isdigit s) > max_str_digits then None else digits s)"

text \<open>
  \<^verbatim>\<open>int(s)\<close> for a string \<open>s\<close>: white space around the literal is dropped, one sign
  may come first, the rest is a decimal literal; anything else is a
  \<^verbatim>\<open>ValueError\<close>.
\<close>

definition py_int :: "string \<Rightarrow> exn + int" where
  "py_int s =
     (case int_strip s of
        [] \<Rightarrow> Inl ValueError
      | c # cs \<Rightarrow>
          if c = CHR ''-'' then
            (case literal cs of None \<Rightarrow> Inl ValueError | Some n \<Rightarrow> Inr (- int n))
          else if c = CHR ''+'' then
            (case literal cs of None \<Rightarrow> Inl ValueError | Some n \<Rightarrow> Inr (int n))
          else
            (case literal (c # cs) of None \<Rightarrow> Inl ValueError | Some n \<Rightarrow> Inr (int n)))"

text \<open>
  \<^verbatim>\<open>"%d" % n\<close>: the decimal digits of \<open>n\<close>, after a minus sign when \<open>n < 0\<close>. This
  is the text for an \<open>n\<close> of at most \<open>max_str_digits\<close> digits, as every integer is
  that \<^verbatim>\<open>int\<close> has read from a text, the port of the command line among them.
\<close>

definition digit_char :: "nat \<Rightarrow> char" where
  "digit_char d = char_of (48 + d)"

fun str_nat :: "nat \<Rightarrow> string" where
  "str_nat n = (if n < 10 then [digit_char n] else str_nat (n div 10) @ [digit_char (n mod 10)])"

declare str_nat.simps [simp del]

definition str_int :: "int \<Rightarrow> string" where
  "str_int i = (if i < 0 then CHR ''-'' # str_nat (nat (- i)) else str_nat (nat i))"

subsection \<open>\<^verbatim>\<open>PodStateType\<close> and \<^verbatim>\<open>PodState\<close>\<close>

text \<open>The two tables, in the order of the dictionary literals.\<close>

definition MAP :: "(string \<times> int) list" where
  "MAP =
     [(''POST'', 0), (''BOOT'', 1), (''LPFILL'', 2), (''HPFILL'', 3), (''LOAD'', 4),
      (''STANDBY'', 5), (''ARMED'', 6), (''PUSHING'', 7), (''COASTING'', 8),
      (''BRAKING'', 9), (''VENT'', 10), (''RETRIEVAL'', 11), (''EMERGENCY'', 12),
      (''SHUTDOWN'', 13)]"

definition SHORT_MAP :: "(string \<times> int) list" where
  "SHORT_MAP =
     [(''POST'', 0), (''BOOT'', 1), (''LPFL'', 2), (''HPFL'', 3), (''LOAD'', 4),
      (''STBY'', 5), (''ARMD'', 6), (''PUSH'', 7), (''COAS'', 8), (''BRKE'', 9),
      (''VENT'', 10), (''RETR'', 11), (''EMRG'', 12), (''SDWN'', 13)]"

text \<open>\<^verbatim>\<open>PodStateType.__getattr__\<close>: \<^verbatim>\<open>PodState.NAME\<close> is the ordinal of \<open>NAME\<close> in \<open>MAP\<close>.\<close>

definition getattr :: "string \<Rightarrow> exn + int" where
  "getattr name =
     (case map_of MAP name of Some v \<Rightarrow> Inr v | None \<Rightarrow> Inl (AttributeError name))"

text \<open>A \<^verbatim>\<open>PodState\<close> object: its one field \<^verbatim>\<open>_state\<close>.\<close>

datatype PodState = PodState (state_of: int)

text \<open>
  \<^verbatim>\<open>PodState(state)\<close> with the string \<open>state\<close> that \<^verbatim>\<open>handle_data\<close> passes:
  \<^verbatim>\<open>self._state = int(state)\<close>.
\<close>

definition PodState_init :: "string \<Rightarrow> exn + PodState" where
  "PodState_init s = (case py_int s of Inl e \<Rightarrow> Inl e | Inr n \<Rightarrow> Inr (PodState n))"

text \<open>\<^verbatim>\<open>PodState(state)\<close> with an integer \<open>state\<close>: \<^verbatim>\<open>int(state)\<close> is \<open>state\<close> itself.\<close>

definition PodState_init_int :: "int \<Rightarrow> exn + PodState" where
  "PodState_init_int n = Inr (PodState n)"

definition is_fault :: "PodState \<Rightarrow> bool" where
  "is_fault p = (getattr ''EMERGENCY'' = Inr (state_of p))"

definition is_moving :: "PodState \<Rightarrow> bool" where
  "is_moving p =
     (Inr (state_of p) \<in> set [getattr ''BRAKING'', getattr ''COASTING'', getattr ''PUSHING''])"

text \<open>\<^verbatim>\<open>__str__\<close> and \<^verbatim>\<open>short\<close>: the first key of the table with this ordinal.\<close>

definition str_PodState :: "PodState \<Rightarrow> string" where
  "str_PodState p =
     (case filter (\<lambda>(key, val). val = state_of p) MAP of
        [] \<Rightarrow> ''UNKNOWN''
      | (key, val) # _ \<Rightarrow> key)"

definition short :: "PodState \<Rightarrow> string" where
  "short p =
     (case filter (\<lambda>(key, val). val = state_of p) SHORT_MAP of
        [] \<Rightarrow> ''----''
      | (key, val) # _ \<Rightarrow> key)"

subsection \<open>The \<^verbatim>\<open>Ansi\<close> helper\<close>

text \<open>
  The class \<^verbatim>\<open>Ansi\<close> is imported from a module that is not among the sources. The
  functions \<^verbatim>\<open>podctl.py\<close> calls are taken as a parameter: a record of five functions
  on strings.
\<close>

record Ansi =
  make_bold :: "string \<Rightarrow> string"
  make_red :: "string \<Rightarrow> string"
  make_green :: "string \<Rightarrow> string"
  make_yellow :: "string \<Rightarrow> string"
  strip :: "string \<Rightarrow> string"

text \<open>
  Modelled from the spec: the module \<^verbatim>\<open>ansi\<close> with the class \<^verbatim>\<open>Ansi\<close> is missing from
  the sources. The spec describes it as pure functions, one that highlights a text
  with colour or format markup and one that strips that markup again. \<open>sgr\<close> is such
  an instance, with the usual escape sequences (\<^verbatim>\<open>ESC [ n m\<close> before the text,
  \<^verbatim>\<open>ESC [ 0 m\<close> after it); it serves to run \<open>make_prompt\<close> on concrete inputs.
\<close>

definition ESC :: char where
  "ESC = CHR 0x1B"

definition sgr_wrap :: "string \<Rightarrow> string \<Rightarrow> string" where
  "sgr_wrap code s = ESC # ''['' @ code @ ''m'' @ s @ ESC # ''[0m''"

fun sgr_strip :: "bool \<Rightarrow> string \<Rightarrow> string" where
  "sgr_strip inside [] = []"
| "sgr_strip True (c # cs) = (if c = CHR ''m'' then sgr_strip False cs else sgr_strip True cs)"
| "sgr_strip False (c # cs) = (if c = ESC then sgr_strip True cs else c # sgr_strip False cs)"

definition sgr :: Ansi where
  "sgr = \<lparr> make_bold = sgr_wrap ''1'', make_red = sgr_wrap ''31'',
           make_green = sgr_wrap ''32'', make_yellow = sgr_wrap ''33'',
           strip = sgr_strip False \<rparr>"

subsection \<open>Module state and effects\<close>

definition MAX_MESSAGE_SIZE :: nat where
  "MAX_MESSAGE_SIZE = 2048"

text \<open>\<^verbatim>\<open>timedelta(seconds=1)\<close>, in microseconds.\<close>

definition PING_TIMEOUT :: int where
  "PING_TIMEOUT = 1000000"

text \<open>The two module globals.\<close>

record globals =
  PROMPT_TRACK :: int
  LAST_PROMPT :: string

definition globals_init :: globals where
  "globals_init = \<lparr> PROMPT_TRACK = 0, LAST_PROMPT = [] \<rparr>"

text \<open>A socket object, as far as the program looks at it: its descriptor.\<close>

datatype socket = Socket (fileno: int)

text \<open>
  What reaches the outside. \<^verbatim>\<open>sys.stdout.write\<close>, \<^verbatim>\<open>sys.stdout.flush\<close>,
  \<^verbatim>\<open>logging.error\<close> and \<^verbatim>\<open>socket.close\<close> are taken not to raise; the program
  has no handler around them either.
\<close>

datatype event =
    StdoutWrite string
  | StdoutFlush
  | SockSend string
  | SockClose socket
  | LogError exn

text \<open>\<^verbatim>\<open>progress()\<close>\<close>

definition progress :: "globals \<Rightarrow> string \<times> globals" where
  "progress g =
     (let t = (PROMPT_TRACK g + 1) mod 5
      in (replicate (nat t) CHR ''.'' @ replicate (nat (4 - t)) CHR '' '',
          g\<lparr>PROMPT_TRACK := t\<rparr>))"

subsection \<open>\<^verbatim>\<open>Pod\<close>\<close>

record Pod =
  sock :: "socket option"
  addr :: "string \<times> int"
  last_ping :: int
  recieved :: int
  state :: "PodState option"

text \<open>\<^verbatim>\<open>Pod.__init__\<close>, at the time \<open>now\<close>.\<close>

definition Pod_init :: "string \<times> int \<Rightarrow> int \<Rightarrow> Pod" where
  "Pod_init a now = \<lparr> sock = None, addr = a, last_ping = now, recieved = 0, state = None \<rparr>"

definition is_connected :: "Pod \<Rightarrow> bool" where
  "is_connected pod = (case sock pod of None \<Rightarrow> False | Some s \<Rightarrow> fileno s \<ge> 0)"

definition close :: "Pod \<Rightarrow> (exn + unit) \<times> Pod \<times> event list" where
  "close pod =
     (case sock pod of
        Some s \<Rightarrow> (Inr (), pod\<lparr>sock := None\<rparr>, [SockClose s])
      | None \<Rightarrow> (Inr (), pod, []))"

text \<open>
  \<^verbatim>\<open>Pod.send\<close>. \<open>out\<close> is what the body of the \<^verbatim>\<open>try\<close> does:
  \<^verbatim>\<open>self.sock.send(data.encode('utf-8'))\<close> returns or raises.
\<close>

definition send :: "Pod \<Rightarrow> string \<Rightarrow> unit outcome \<Rightarrow> (exn + unit) \<times> Pod \<times> event list" where
  "send pod data out =
     (if \<not> is_connected pod then (Inr (), pod, [])
      else (case out of
              Returns u \<Rightarrow> (Inr (), pod, [SockSend data])
            | Raises e \<Rightarrow>
                (case close pod of (r, pod', evs) \<Rightarrow> (r, pod', LogError e # evs))))"

text \<open>\<^verbatim>\<open>Pod.command\<close>\<close>

definition command :: "Pod \<Rightarrow> string \<Rightarrow> unit outcome \<Rightarrow> (exn + unit) \<times> Pod \<times> event list" where
  "command pod cmd out = send pod (cmd @ [CHR 0x0A]) out"

text \<open>
  \<^verbatim>\<open>Pod.ping\<close>. \<open>out\<close> is the outcome of the socket write inside \<open>send\<close>, \<open>now\<close> the
  reading of the clock after it. \<^verbatim>\<open>print\<close> writes its argument and a newline.
\<close>

definition ping :: "Ansi \<Rightarrow> Pod \<Rightarrow> unit outcome \<Rightarrow> int \<Rightarrow> (exn + unit) \<times> Pod \<times> event list" where
  "ping ans pod out now =
     (case send pod ''ping'' out of
        (Inl e, pod1, ev1) \<Rightarrow> (Inl e, pod1, ev1)
      | (Inr u, pod1, ev1) \<Rightarrow>
          (let timed_out = (now - last_ping pod1 > PING_TIMEOUT)
           in if is_connected pod1 \<and> timed_out \<and> recieved pod1 > 0 then
                (case close pod1 of
                   (r, pod2, ev2) \<Rightarrow>
                     (r, pod2,
                      ev1 @ [StdoutWrite (make_bold ans (make_red ans ''PING TIMEOUT!'') @ [CHR 0x0A])]
                          @ ev2))
              else (Inr (), pod1, ev1)))"



subsection \<open>The prompt\<close>

text \<open>\<^verbatim>\<open>user_write\<close>\<close>

definition user_write :: "string \<Rightarrow> event list" where
  "user_write txt = [StdoutWrite txt, StdoutFlush]"

text \<open>
  \<^verbatim>\<open>make_prompt(pod, extra)\<close>: the text returned and the globals afterwards.
  \<^verbatim>\<open>" " * n\<close> is empty for \<open>n \<le> 0\<close>, as \<open>replicate\<close> on a difference of naturals is.
\<close>

definition make_prompt :: "Ansi \<Rightarrow> Pod \<Rightarrow> string \<Rightarrow> globals \<Rightarrow> string \<times> globals" where
  "make_prompt ans pod extra g =
     (let details0 = fst (addr pod) @ '':'' @ str_int (snd (addr pod));
          (details, g1) =
            (case state pod of
               Some st \<Rightarrow>
                 (let d = details0 @ '' '' @ short st
                  in (if is_fault st then make_red ans d else make_green ans d, g))
             | None \<Rightarrow>
                 (case progress g of
                    (walker, g') \<Rightarrow> (make_yellow ans (details0 @ '' '' @ walker), g')));
          text = make_bold ans (''Pod('' @ details @ '')'' @ extra);
          raw = strip ans text;
          text' =
            (if length (strip ans (LAST_PROMPT g1)) > length raw
             then text @ replicate (length (LAST_PROMPT g1) - length raw) CHR '' ''
             else text)
      in (text', g1\<lparr>LAST_PROMPT := str_rstrip text'\<rparr>))"

subsection \<open>\<^verbatim>\<open>Pod.handle_data\<close>\<close>

text \<open>
  \<open>now\<close> is the clock. The result carries the pod and the globals as they are when
  the method returns or raises.
\<close>

definition handle_data ::
  "Ansi \<Rightarrow> Pod \<Rightarrow> globals \<Rightarrow> int \<Rightarrow> string \<Rightarrow> (exn + bool) \<times> Pod \<times> globals \<times> event list"
where
  "handle_data ans pod g now data =
     (if contains data ''PONG'' then
        (let pod1 = pod\<lparr>last_ping := now, recieved := recieved pod + 1\<rparr>
         in case index (str_split CHR '':'' data) 1 of
              Inl e \<Rightarrow> (Inl e, pod1, g, [])
            | Inr token \<Rightarrow>
                (case PodState_init token of
                   Inl e \<Rightarrow> (Inl e, pod1, g, [])
                 | Inr st \<Rightarrow>
                     if (case state pod1 of
                           None \<Rightarrow> True
                         | Some old \<Rightarrow> state_of st \<noteq> state_of old)
                     then
                       (let pod2 = pod1\<lparr>state := Some st\<rparr>
                        in case make_prompt ans pod2 ''> '' g of
                             (text, g') \<Rightarrow>
                               (Inr (\<not> contains data ''PONG''), pod2, g',
                                StdoutWrite [CHR 0x0D] # user_write text))
                     else
                       (Inr (\<not> contains data ''PONG''), pod1\<lparr>state := Some st\<rparr>, g, [])))
      else (Inr (\<not> contains data ''PONG''), pod, g, [StdoutWrite data]))"

subsection \<open>\<^verbatim>\<open>Heart\<close>\<close>













section \<open>Properties\<close>

subsection \<open>Strings and integers\<close>

lemma contains_iff: "contains data sub \<longleftrightarrow> (\<exists>u v. data = u @ sub @ v)"
proof (induction data)
  case Nil
  then show ?case by auto
next
  case (Cons c cs)
  show ?case
  proof
    assume "contains (c # cs) sub"
    then consider "prefix sub (c # cs)" | "contains cs sub" by auto
    then show "\<exists>u v. c # cs = u @ sub @ v"
    proof cases
      case 1
      then obtain v where "c # cs = sub @ v" by (auto simp: prefix_def)
      then have "c # cs = [] @ sub @ v" by simp
      then show ?thesis by blast
    next
      case 2
      with Cons obtain u v where "cs = u @ sub @ v" by auto
      then have "c # cs = (c # u) @ sub @ v" by simp
      then show ?thesis by blast
    qed
  next
    assume "\<exists>u v. c # cs = u @ sub @ v"
    then obtain u v where uv: "c # cs = u @ sub @ v" by blast
    show "contains (c # cs) sub"
    proof (cases u)
      case Nil
      with uv have "prefix sub (c # cs)" by (simp add: prefix_def)
      then show ?thesis by simp
    next
      case (Cons x u')
      with uv have "cs = u' @ sub @ v" by simp
      with Cons.IH have "contains cs sub" by blast
      then show ?thesis by simp
    qed
  qed
qed

lemma str_split_no_sep: "sep \<notin> set s \<Longrightarrow> str_split sep s = [s]"
  by (induction s) auto

lemma str_split_first: "sep \<notin> set a \<Longrightarrow> str_split sep (a @ sep # b) = a # str_split sep b"
  by (induction a) auto

text \<open>
  Field 1 of a split is the text between the first separator and the next one, or
  the end of the string.
\<close>

lemma str_split_field1:
  assumes "sep \<notin> set a" "sep \<notin> set tok" "rest = [] \<or> (\<exists>r. rest = sep # r)"
  shows "index (str_split sep (a @ sep # tok @ rest)) 1 = Inr tok"
proof -
  have "\<exists>fs. str_split sep (tok @ rest) = tok # fs"
    using assms(3)
  proof
    assume "rest = []"
    then show ?thesis using assms(2) by (simp add: str_split_no_sep)
  next
    assume "\<exists>r. rest = sep # r"
    then obtain r where "rest = sep # r" by blast
    then show ?thesis using assms(2) by (simp add: str_split_first)
  qed
  then obtain fs where "str_split sep (tok @ rest) = tok # fs" by blast
  then show ?thesis using assms(1) by (simp add: str_split_first index_def)
qed

lemma py_int_error: "py_int s = Inl e \<Longrightarrow> e = ValueError"
  by (auto simp: py_int_def split: list.splits if_splits option.splits)

lemma isdigit_digit_char: "d < 10 \<Longrightarrow> isdigit (digit_char d)"
  by (simp add: isdigit_def digit_char_def)

lemma digit_val_digit_char: "d < 10 \<Longrightarrow> digit_val (digit_char d) = d"
  by (simp add: digit_val_def digit_char_def)

lemma isdigit_not_space: "isdigit c \<Longrightarrow> \<not> int_isspace c"
  by (auto simp: isdigit_def int_isspace_def Let_def)

lemma isdigit_not_sign: "isdigit c \<Longrightarrow> c \<noteq> CHR ''-'' \<and> c \<noteq> CHR ''+''"
  by (auto simp: isdigit_def)

lemma str_nat_digits: "\<forall>c \<in> set (str_nat n). isdigit c"
proof (induction n rule: str_nat.induct)
  case (1 n)
  show ?case
  proof (cases "n < 10")
    case True
    then show ?thesis by (subst str_nat.simps) (simp add: isdigit_digit_char)
  next
    case False
    with 1 have "\<forall>c \<in> set (str_nat (n div 10)). isdigit c" by simp
    moreover have "isdigit (digit_char (n mod 10))" by (simp add: isdigit_digit_char)
    ultimately show ?thesis using False by (subst str_nat.simps) auto
  qed
qed

lemma str_nat_nonempty: "str_nat n \<noteq> []"
  by (subst str_nat.simps) simp

text \<open>The number of digits of \<open>n\<close>: at most \<open>k\<close> below \<open>10 ^ k\<close>, more than \<open>k\<close> from there on.\<close>

lemma length_str_nat_le: "n < 10 ^ k \<Longrightarrow> 0 < k \<Longrightarrow> length (str_nat n) \<le> k"
proof (induction n arbitrary: k rule: str_nat.induct)
  case (1 n)
  show ?case
  proof (cases "n < 10")
    case True
    then show ?thesis using "1.prems" by (subst str_nat.simps) simp
  next
    case False
    obtain j where k: "k = Suc j" using "1.prems"(2) by (cases k) auto
    have "j \<noteq> 0" using False "1.prems"(1) k by (cases j) auto
    moreover have "n div 10 < 10 ^ j" using "1.prems"(1) k by (simp add: less_mult_imp_div_less)
    ultimately have "length (str_nat (n div 10)) \<le> j" using "1.IH" [of j] False by simp
    then show ?thesis using False k by (subst str_nat.simps) simp
  qed
qed

lemma length_str_nat_gt: "10 ^ k \<le> n \<Longrightarrow> k < length (str_nat n)"
proof (induction n arbitrary: k rule: str_nat.induct)
  case (1 n)
  show ?case
  proof (cases "n < 10")
    case True
    with "1.prems" have "(10 :: nat) ^ k < 10 ^ 1" by simp
    then have "k = 0" using power_less_imp_less_exp [of "10 :: nat" k 1] by simp
    then show ?thesis using True by (subst str_nat.simps) simp
  next
    case False
    show ?thesis
    proof (cases k)
      case 0
      then show ?thesis using str_nat_nonempty [of n] by (cases "str_nat n") auto
    next
      case (Suc j)
      then have "10 ^ j \<le> n div 10" using "1.prems" by (simp add: less_eq_div_iff_mult_less_eq)
      then have "j < length (str_nat (n div 10))" using "1.IH" [of j] False by simp
      then show ?thesis using False Suc by (subst str_nat.simps) simp
    qed
  qed
qed

lemma filter_isdigit_str_nat: "filter isdigit (str_nat n) = str_nat n"
  using str_nat_digits [of n] by (simp add: filter_id_conv)

lemma digits_acc_foldl:
  "\<forall>c \<in> set s. isdigit c \<Longrightarrow>
   digits_acc acc s = Some (foldl (\<lambda>a c. a * 10 + digit_val c) acc s)"
  by (induction s arbitrary: acc) auto

lemma foldl_str_nat: "foldl (\<lambda>a c. a * 10 + digit_val c) 0 (str_nat n) = n"
proof (induction n rule: str_nat.induct)
  case (1 n)
  show ?case
  proof (cases "n < 10")
    case True
    then show ?thesis by (subst str_nat.simps) (simp add: digit_val_digit_char)
  next
    case False
    with 1 have "foldl (\<lambda>a c. a * 10 + digit_val c) 0 (str_nat (n div 10)) = n div 10"
      by simp
    then show ?thesis using False
      by (subst str_nat.simps) (simp add: digit_val_digit_char)
  qed
qed

lemma digits_str_nat: "digits (str_nat n) = Some n"
proof -
  obtain c cs where s: "str_nat n = c # cs"
    using str_nat_nonempty [of n] by (cases "str_nat n") auto
  have d: "\<forall>x \<in> set (c # cs). isdigit x" using str_nat_digits [of n] s by simp
  have "digits (c # cs) = digits_acc 0 (c # cs)"
    using d by (simp add: digits_def)
  also have "\<dots> = Some (foldl (\<lambda>a c. a * 10 + digit_val c) 0 (c # cs))"
    using d by (rule digits_acc_foldl)
  finally show ?thesis using foldl_str_nat [of n] s by simp
qed

lemma literal_str_nat:
  "literal (str_nat n) = (if n < 10 ^ max_str_digits then Some n else None)"
proof (cases "n < 10 ^ max_str_digits")
  case True
  then have "length (str_nat n) \<le> max_str_digits"
    by (rule length_str_nat_le) (simp add: max_str_digits_def)
  then show ?thesis using True by (simp add: literal_def filter_isdigit_str_nat digits_str_nat)
next
  case False
  then have "max_str_digits < length (str_nat n)" by (intro length_str_nat_gt) simp
  then show ?thesis using False by (simp add: literal_def filter_isdigit_str_nat)
qed

lemma int_strip_no_space:
  assumes "s \<noteq> []" "\<not> int_isspace (hd s)" "\<not> int_isspace (last s)"
  shows "int_strip s = s"
proof -
  have a: "dropWhile int_isspace s = s" using assms by (cases s) auto
  have "dropWhile int_isspace (rev s) = rev s"
    using assms by (cases "rev s") (auto simp: last_rev [symmetric] hd_rev)
  then show ?thesis using a by (simp add: int_strip_def)
qed

lemma int_strip_str_nat: "int_strip (str_nat n) = str_nat n"
  using str_nat_nonempty [of n] str_nat_digits [of n]
  by (intro int_strip_no_space) (auto dest!: isdigit_not_space)

lemma int_strip_minus_str_nat: "int_strip (CHR ''-'' # str_nat n) = CHR ''-'' # str_nat n"
  using str_nat_nonempty [of n] str_nat_digits [of n]
  by (intro int_strip_no_space) (auto simp: int_isspace_def dest!: isdigit_not_space)

lemma nat_abs_less_power: "nat \<bar>i\<bar> < 10 ^ k \<longleftrightarrow> \<bar>i\<bar> < 10 ^ k"
  by (simp add: nat_less_iff)

text \<open>
  \<^verbatim>\<open>int("%d" % i)\<close>: the decimal text of an integer is read back as it, up to the
  bound on the digits; beyond the bound it is refused.
\<close>

lemma py_int_str_int:
  "py_int (str_int i) = (if \<bar>i\<bar> < 10 ^ max_str_digits then Inr i else Inl ValueError)"
proof (cases "i < 0")
  case True
  then have "nat (- i) < 10 ^ max_str_digits \<longleftrightarrow> \<bar>i\<bar> < 10 ^ max_str_digits"
    using nat_abs_less_power [of i max_str_digits] by simp
  then show ?thesis using True
    by (simp add: py_int_def str_int_def int_strip_minus_str_nat literal_str_nat)
next
  case False
  obtain c cs where s: "str_nat (nat i) = c # cs"
    using str_nat_nonempty [of "nat i"] by (cases "str_nat (nat i)") auto
  have "isdigit c" using str_nat_digits [of "nat i"] s by simp
  then have "c \<noteq> CHR ''-''" "c \<noteq> CHR ''+''" using isdigit_not_sign by auto
  moreover have "literal (c # cs) = (if nat i < 10 ^ max_str_digits then Some (nat i) else None)"
    using literal_str_nat [of "nat i"] s by simp
  moreover have "int_strip (str_nat (nat i)) = c # cs"
    using int_strip_str_nat [of "nat i"] s by simp
  moreover have "nat i < 10 ^ max_str_digits \<longleftrightarrow> \<bar>i\<bar> < 10 ^ max_str_digits"
    using nat_abs_less_power [of i max_str_digits] False by simp
  ultimately show ?thesis using False
    by (simp add: py_int_def str_int_def)
qed

lemma small_below_bound: "\<bar>i\<bar> < 100 \<Longrightarrow> \<bar>i :: int\<bar> < 10 ^ max_str_digits"
proof -
  assume a: "\<bar>i\<bar> < 100"
  have "(10 :: int) ^ 2 \<le> 10 ^ max_str_digits"
    by (rule power_increasing) (simp_all add: max_str_digits_def)
  with a show ?thesis by simp
qed

lemma str_int_1: "str_int 1 = ''1''"
  by (simp add: str_int_def str_nat.simps digit_char_def char_of_def bit_Suc_0_iff)

lemma str_int_6_14: "str_int 6 = ''6''" "str_int 14 = ''14''"
  by (simp_all add: str_int_def str_nat.simps digit_char_def char_of_def bit_Suc_0_iff)

lemma py_int_6: "py_int ''6'' = Inr 6"
  by (simp add: py_int_def int_strip_def int_isspace_def literal_def max_str_digits_def
      digits_def isdigit_def digit_val_def)

lemma py_int_fs6: "py_int [CHR 0x1C, CHR ''6''] = Inl ValueError"
  by (simp add: py_int_def int_strip_def int_isspace_def literal_def max_str_digits_def
      digits_def isdigit_def digit_val_def)

subsection \<open>\<^verbatim>\<open>PodState\<close>\<close>

lemma known_names:
  "\<forall>(name, k) \<in> set MAP.
     getattr name = Inr k \<and> str_PodState (PodState k) = name
     \<and> length (short (PodState k)) = 4 \<and> (short (PodState k), k) \<in> set SHORT_MAP"
  by (simp add: MAP_def SHORT_MAP_def getattr_def str_PodState_def short_def)

lemma unknown_ordinal:
  "n < 0 \<or> 13 < n \<Longrightarrow>
   str_PodState (PodState n) = ''UNKNOWN'' \<and> short (PodState n) = ''----''"
  by (auto simp add: MAP_def SHORT_MAP_def str_PodState_def short_def)

lemma PodState_init_str_int:
  "PodState_init (str_int n) =
     (if \<bar>n\<bar> < 10 ^ max_str_digits then Inr (PodState n) else Inl ValueError)"
  by (simp add: PodState_init_def py_int_str_int)

lemma short_armed: "short (PodState 6) = ''ARMD''" "\<not> is_fault (PodState 6)"
  by (simp_all add: short_def SHORT_MAP_def is_fault_def getattr_def MAP_def)

text \<open>
  Claim C3, as the code has it. A \<^verbatim>\<open>PodState\<close> is built from an ordinal, not from a
  name: \<^verbatim>\<open>PodState(state)\<close> is \<^verbatim>\<open>int(state)\<close>. For each of the 14 names of \<open>MAP\<close>,
  with its ordinal \<open>k\<close> (the value of \<^verbatim>\<open>PodState.NAME\<close>): building the state from
  \<open>k\<close> or from the decimal text of \<open>k\<close> succeeds, \<^verbatim>\<open>__str__\<close> gives the name back, and
  \<^verbatim>\<open>short()\<close> gives the code of 4 characters that \<open>SHORT_MAP\<close> holds for \<open>k\<close>. For an
  ordinal outside 0..13 the name is \<^verbatim>\<open>UNKNOWN\<close> and the short code \<^verbatim>\<open>----\<close>. Building
  a state from an integer always succeeds. Building it from the decimal text of an
  integer succeeds while the text has at most 4300 digits, the bound of \<^verbatim>\<open>int\<close>, and
  raises \<^verbatim>\<open>ValueError\<close> beyond it.
\<close>

theorem PodState_roundtrip:
  "(\<forall>(name, k) \<in> set MAP.
      getattr name = Inr k
      \<and> PodState_init_int k = Inr (PodState k)
      \<and> PodState_init (str_int k) = Inr (PodState k)
      \<and> str_PodState (PodState k) = name
      \<and> length (short (PodState k)) = 4
      \<and> (short (PodState k), k) \<in> set SHORT_MAP)
   \<and> length MAP = 14 \<and> distinct (map fst MAP) \<and> distinct (map fst SHORT_MAP)
   \<and> (n < 0 \<or> 13 < n \<longrightarrow>
        str_PodState (PodState n) = ''UNKNOWN'' \<and> short (PodState n) = ''----'')
   \<and> PodState_init_int n = Inr (PodState n)
   \<and> PodState_init (str_int n) =
       (if \<bar>n\<bar> < 10 ^ max_str_digits then Inr (PodState n) else Inl ValueError)
   \<and> max_str_digits = 4300"
proof -
  have small: "\<forall>(name, k) \<in> set MAP. \<bar>k\<bar> < 100"
    by (simp add: MAP_def)
  have a: "\<forall>(name, k) \<in> set MAP.
      getattr name = Inr k
      \<and> PodState_init_int k = Inr (PodState k)
      \<and> PodState_init (str_int k) = Inr (PodState k)
      \<and> str_PodState (PodState k) = name
      \<and> length (short (PodState k)) = 4
      \<and> (short (PodState k), k) \<in> set SHORT_MAP"
    using known_names small
    by (auto simp: PodState_init_str_int PodState_init_int_def dest!: small_below_bound)
  have b: "length MAP = 14" "distinct (map fst MAP)" "distinct (map fst SHORT_MAP)"
    by (simp_all add: MAP_def SHORT_MAP_def)
  have c: "PodState_init_int n = Inr (PodState n)" "max_str_digits = 4300"
    by (simp_all add: PodState_init_int_def max_str_digits_def)
  show ?thesis
    using a b c unknown_ordinal [of n] PodState_init_str_int [of n] by blast
qed

theorem PodState_roundtrip_witness:
  "(''ARMED'', 6) \<in> set MAP
   \<and> PodState_init ''6'' = Inr (PodState 6)
   \<and> str_PodState (PodState 6) = ''ARMED''
   \<and> short (PodState 6) = ''ARMD''
   \<and> (13 :: int) < 14
   \<and> str_PodState (PodState 14) = ''UNKNOWN''
   \<and> short (PodState 14) = ''----''
   \<and> PodState_init_int 14 = Inr (PodState 14)
   \<and> PodState_init ''14'' = Inr (PodState 14)"
proof -
  have m: "(''ARMED'', 6) \<in> set MAP" by (simp add: MAP_def)
  have s: "\<bar>14 :: int\<bar> < 10 ^ max_str_digits" by (rule small_below_bound) simp
  from PodState_roundtrip [of 14] m
  have "PodState_init (str_int 6) = Inr (PodState 6) \<and> str_PodState (PodState 6) = ''ARMED''"
    by blast
  then show ?thesis
    using PodState_roundtrip [of 14] m s str_int_6_14 short_armed(1) by simp
qed

text \<open>
  The claim as the spec words it, parsing the name itself, fails in the code:
  \<^verbatim>\<open>PodState("ARMED")\<close> raises \<^verbatim>\<open>ValueError\<close>.
\<close>

theorem PodState_name_counterexample:
  "(''ARMED'', 6) \<in> set MAP \<and> PodState_init ''ARMED'' = Inl ValueError"
  by (simp add: MAP_def PodState_init_def py_int_def int_strip_def int_isspace_def literal_def
      max_str_digits_def
      digits_def isdigit_def)

subsection \<open>The session: \<^verbatim>\<open>close\<close>, \<^verbatim>\<open>send\<close>, \<^verbatim>\<open>connect\<close>\<close>

lemma close_result:
  "close pod =
     (Inr (), pod\<lparr>sock := None\<rparr>, case sock pod of None \<Rightarrow> [] | Some s \<Rightarrow> [SockClose s])"
  by (cases "sock pod") (simp_all add: close_def)



text \<open>
  Claim C7. \<^verbatim>\<open>close()\<close> never raises; afterwards the socket handle is \<^verbatim>\<open>None\<close> and
  \<^verbatim>\<open>is_connected()\<close> is false; on a session whose handle is already \<^verbatim>\<open>None\<close> it
  changes nothing and touches no socket; and a second \<^verbatim>\<open>close()\<close> right after a
  first one returns normally, changes nothing and closes no socket again.
\<close>

theorem close_idempotent:
  "fst (close pod) = Inr ()
   \<and> sock (fst (snd (close pod))) = None
   \<and> \<not> is_connected (fst (snd (close pod)))
   \<and> (sock pod = None \<longrightarrow> close pod = (Inr (), pod, []))
   \<and> close (fst (snd (close pod))) = (Inr (), fst (snd (close pod)), [])"
  by (cases "sock pod") (simp_all add: close_def is_connected_def)

theorem close_idempotent_witness:
  "sock (Pod_init (''127.0.0.1'', 7779) 0) = None
   \<and> close (Pod_init (''127.0.0.1'', 7779) 0) = (Inr (), Pod_init (''127.0.0.1'', 7779) 0, [])
   \<and> close (fst (snd (close ((Pod_init (''127.0.0.1'', 7779) 0)\<lparr>sock := Some (Socket 3)\<rparr>))))
       = (Inr (), Pod_init (''127.0.0.1'', 7779) 0, [])"
  using close_idempotent [of "Pod_init (''127.0.0.1'', 7779) 0"]
    close_idempotent [of "(Pod_init (''127.0.0.1'', 7779) 0)\<lparr>sock := Some (Socket 3)\<rparr>"]
  by (simp add: Pod_init_def close_def)

text \<open>
  Claim C6. \<^verbatim>\<open>send\<close> never raises, whatever the socket write does. On a session
  that is not connected it does nothing. On a connected session a write that
  succeeds hands the text to the socket, and a write that raises \<open>e\<close> is logged,
  the socket is closed and the handle becomes \<^verbatim>\<open>None\<close>.
\<close>

theorem send_never_raises:
  "fst (send pod data out) = Inr ()
   \<and> (\<not> is_connected pod \<longrightarrow> send pod data out = (Inr (), pod, []))
   \<and> (is_connected pod \<longrightarrow>
        send pod data (Returns u) = (Inr (), pod, [SockSend data])
        \<and> (\<exists>s. sock pod = Some s
             \<and> send pod data (Raises e)
                 = (Inr (), pod\<lparr>sock := None\<rparr>, [LogError e, SockClose s]))
        \<and> sock (fst (snd (send pod data (Raises e)))) = None)"
  by (cases "sock pod"; cases out) (simp_all add: send_def close_def is_connected_def)

theorem send_never_raises_witness:
  "\<not> is_connected (Pod_init (''127.0.0.1'', 7779) 0)
   \<and> send (Pod_init (''127.0.0.1'', 7779) 0) ''help'' (Raises (OSError ''EPIPE''))
       = (Inr (), Pod_init (''127.0.0.1'', 7779) 0, [])
   \<and> is_connected ((Pod_init (''127.0.0.1'', 7779) 0)\<lparr>sock := Some (Socket 3)\<rparr>)
   \<and> send ((Pod_init (''127.0.0.1'', 7779) 0)\<lparr>sock := Some (Socket 3)\<rparr>) ''help''
         (Raises (OSError ''EPIPE''))
       = (Inr (), Pod_init (''127.0.0.1'', 7779) 0,
          [LogError (OSError ''EPIPE''), SockClose (Socket 3)])"
  using send_never_raises [of "Pod_init (''127.0.0.1'', 7779) 0" "''help''"
      "Raises (OSError ''EPIPE'')"]
    send_never_raises [of "(Pod_init (''127.0.0.1'', 7779) 0)\<lparr>sock := Some (Socket 3)\<rparr>"
      "''help''" "Raises (OSError ''EPIPE'')" _ "OSError ''EPIPE''"]
  by (simp add: Pod_init_def is_connected_def)



subsection \<open>\<^verbatim>\<open>Pod.ping\<close>\<close>

lemma send_disconnected: "\<not> is_connected pod \<Longrightarrow> send pod data out = (Inr (), pod, [])"
  by (simp add: send_def)

lemma send_ok:
  "is_connected pod \<Longrightarrow> send pod data (Returns u) = (Inr (), pod, [SockSend data])"
  by (simp add: send_def)

lemma send_fail:
  "sock pod = Some s \<Longrightarrow> is_connected pod \<Longrightarrow>
   send pod data (Raises e) = (Inr (), pod\<lparr>sock := None\<rparr>, [LogError e, SockClose s])"
  by (simp add: send_def close_result)

lemma ping_disconnected: "\<not> is_connected pod \<Longrightarrow> ping ans pod out now = (Inr (), pod, [])"
  by (simp add: ping_def send_disconnected)

lemma ping_ok:
  "sock pod = Some s \<Longrightarrow> is_connected pod \<Longrightarrow>
   ping ans pod (Returns u) now =
     (if recieved pod > 0 \<and> now - last_ping pod > PING_TIMEOUT
      then (Inr (), pod\<lparr>sock := None\<rparr>,
            [SockSend ''ping'',
             StdoutWrite (make_bold ans (make_red ans ''PING TIMEOUT!'') @ [CHR 0x0A]),
             SockClose s])
      else (Inr (), pod, [SockSend ''ping'']))"
  by (simp add: ping_def send_ok close_result)

lemma ping_fail:
  "sock pod = Some s \<Longrightarrow> is_connected pod \<Longrightarrow>
   ping ans pod (Raises e) now = (Inr (), pod\<lparr>sock := None\<rparr>, [LogError e, SockClose s])"
  by (simp add: ping_def send_fail is_connected_def)

text \<open>
  Claim C2, as the code has it. \<^verbatim>\<open>ping\<close> never raises and calls \<^verbatim>\<open>send("ping")\<close>
  first, whatever the timeout test will say; \<^verbatim>\<open>send\<close> writes to the socket only on
  a connected session. The threshold is one second.
  \<^item> On a session that is not connected, \<^verbatim>\<open>ping\<close> does nothing.
  \<^item> When the write of the probe succeeds, \<^verbatim>\<open>ping\<close> closes the session if and only
    if the session is connected, \<^verbatim>\<open>recieved > 0\<close> and \<^verbatim>\<open>now - last_ping\<close> exceeds the
    threshold; it then prints the timeout notice first. With \<^verbatim>\<open>recieved = 0\<close> it
    does not close, however old \<^verbatim>\<open>last_ping\<close> is.
  \<^item> When the write of the probe raises, \<^verbatim>\<open>send\<close> logs the error and closes the
    session, whatever the three conditions are.
\<close>

theorem ping_timeout:
  "fst (ping ans pod out now) = Inr ()
   \<and> PING_TIMEOUT = 1000000
   \<and> (\<not> is_connected pod \<longrightarrow> ping ans pod out now = (Inr (), pod, []))
   \<and> (is_connected pod \<longrightarrow>
        (\<exists>s. sock pod = Some s
          \<and> ping ans pod (Returns u) now =
              (if recieved pod > 0 \<and> now - last_ping pod > PING_TIMEOUT
               then (Inr (), pod\<lparr>sock := None\<rparr>,
                     [SockSend ''ping'',
                      StdoutWrite (make_bold ans (make_red ans ''PING TIMEOUT!'') @ [CHR 0x0A]),
                      SockClose s])
               else (Inr (), pod, [SockSend ''ping'']))
          \<and> ping ans pod (Raises e) now =
              (Inr (), pod\<lparr>sock := None\<rparr>, [LogError e, SockClose s])))
   \<and> ((\<exists>s. SockClose s \<in> set (snd (snd (ping ans pod (Returns u) now))))
        = (is_connected pod \<and> recieved pod > 0 \<and> now - last_ping pod > PING_TIMEOUT))"
proof (cases "is_connected pod")
  case False
  then show ?thesis by (simp add: ping_disconnected PING_TIMEOUT_def)
next
  case True
  then obtain s where s: "sock pod = Some s"
    by (cases "sock pod") (simp_all add: is_connected_def)
  have "fst (ping ans pod out now) = Inr ()"
    using s True by (cases out) (simp_all add: ping_ok ping_fail)
  then show ?thesis
    using s True by (simp add: ping_ok ping_fail PING_TIMEOUT_def)
qed

theorem ping_timeout_witness:
  "is_connected ((Pod_init (''127.0.0.1'', 7779) 0)\<lparr>sock := Some (Socket 3)\<rparr>)
   \<and> ping sgr ((Pod_init (''127.0.0.1'', 7779) 0)\<lparr>sock := Some (Socket 3)\<rparr>) (Returns ())
        2000000
       = (Inr (), (Pod_init (''127.0.0.1'', 7779) 0)\<lparr>sock := Some (Socket 3)\<rparr>,
          [SockSend ''ping''])
   \<and> fst (snd (ping sgr
        ((Pod_init (''127.0.0.1'', 7779) 0)\<lparr>sock := Some (Socket 3), recieved := 1\<rparr>)
        (Returns ()) 2000000))
       = (Pod_init (''127.0.0.1'', 7779) 0)\<lparr>recieved := 1\<rparr>
   \<and> \<not> is_connected (Pod_init (''127.0.0.1'', 7779) 0)
   \<and> ping sgr (Pod_init (''127.0.0.1'', 7779) 0) (Returns ()) 2000000
       = (Inr (), Pod_init (''127.0.0.1'', 7779) 0, [])"
  using ping_timeout [where pod = "(Pod_init (''127.0.0.1'', 7779) 0)\<lparr>sock := Some (Socket 3)\<rparr>"
      and ans = sgr and out = "Returns ()" and now = 2000000 and u = "()"]
    ping_timeout [where pod = "(Pod_init (''127.0.0.1'', 7779) 0)\<lparr>sock := Some (Socket 3),
        recieved := 1\<rparr>"
      and ans = sgr and out = "Returns ()" and now = 2000000 and u = "()"]
    ping_timeout [where pod = "Pod_init (''127.0.0.1'', 7779) 0"
      and ans = sgr and out = "Returns ()" and now = 2000000 and u = "()"]
  by (simp add: Pod_init_def is_connected_def)

text \<open>
  The claim as the spec words it fails when the write of the probe fails: a
  connected session with \<^verbatim>\<open>recieved = 0\<close> and \<^verbatim>\<open>last_ping\<close> two seconds old is closed
  by \<^verbatim>\<open>ping\<close>.
\<close>

theorem ping_send_failure_counterexample:
  "is_connected ((Pod_init (''127.0.0.1'', 7779) 0)\<lparr>sock := Some (Socket 3)\<rparr>)
   \<and> recieved ((Pod_init (''127.0.0.1'', 7779) 0)\<lparr>sock := Some (Socket 3)\<rparr>) = 0
   \<and> 2000000 - last_ping ((Pod_init (''127.0.0.1'', 7779) 0)\<lparr>sock := Some (Socket 3)\<rparr>)
       = 2 * PING_TIMEOUT
   \<and> ping sgr ((Pod_init (''127.0.0.1'', 7779) 0)\<lparr>sock := Some (Socket 3)\<rparr>)
        (Raises (OSError ''EPIPE'')) 2000000
       = (Inr (), Pod_init (''127.0.0.1'', 7779) 0,
          [LogError (OSError ''EPIPE''), SockClose (Socket 3)])"
  by (simp add: ping_fail Pod_init_def is_connected_def PING_TIMEOUT_def)

subsection \<open>The prompt\<close>

lemma progress_LAST_PROMPT: "LAST_PROMPT (snd (progress g)) = LAST_PROMPT g"
  by (simp add: progress_def Let_def)

text \<open>
  Claim C4, as the code has it. Let \<open>text\<close> be the new line before padding. The
  test for padding compares visible widths, \<^verbatim>\<open>len(Ansi.strip(LAST_PROMPT))\<close> against
  \<^verbatim>\<open>len(Ansi.strip(text))\<close>, but the number of spaces appended is
  \<^verbatim>\<open>len(LAST_PROMPT) - len(Ansi.strip(text))\<close>: the previous line is counted with its
  markup. \<^verbatim>\<open>LAST_PROMPT\<close> then becomes the returned line without its trailing white
  space.
\<close>

theorem make_prompt_padding:
  "text = make_bold ans (''Pod('' @
            (case state pod of
               Some st \<Rightarrow>
                 (if is_fault st then make_red ans else make_green ans)
                   (fst (addr pod) @ '':'' @ str_int (snd (addr pod)) @ '' '' @ short st)
             | None \<Rightarrow>
                 make_yellow ans
                   (fst (addr pod) @ '':'' @ str_int (snd (addr pod)) @ '' '' @ fst (progress g)))
            @ '')'' @ extra) \<Longrightarrow>
   fst (make_prompt ans pod extra g) =
     (if length (strip ans (LAST_PROMPT g)) > length (strip ans text)
      then text @ replicate (length (LAST_PROMPT g) - length (strip ans text)) CHR '' ''
      else text)
   \<and> LAST_PROMPT (snd (make_prompt ans pod extra g))
       = str_rstrip (fst (make_prompt ans pod extra g))"
proof (cases "state pod")
  case None
  obtain w g' where p: "progress g = (w, g')" by (cases "progress g")
  then have "LAST_PROMPT g' = LAST_PROMPT g" using progress_LAST_PROMPT [of g] by simp
  moreover assume "text = make_bold ans (''Pod('' @
            (case state pod of
               Some st \<Rightarrow>
                 (if is_fault st then make_red ans else make_green ans)
                   (fst (addr pod) @ '':'' @ str_int (snd (addr pod)) @ '' '' @ short st)
             | None \<Rightarrow>
                 make_yellow ans
                   (fst (addr pod) @ '':'' @ str_int (snd (addr pod)) @ '' '' @ fst (progress g)))
            @ '')'' @ extra)"
  ultimately show ?thesis using None p by (simp add: make_prompt_def Let_def)
next
  case (Some st)
  moreover assume "text = make_bold ans (''Pod('' @
            (case state pod of
               Some st \<Rightarrow>
                 (if is_fault st then make_red ans else make_green ans)
                   (fst (addr pod) @ '':'' @ str_int (snd (addr pod)) @ '' '' @ short st)
             | None \<Rightarrow>
                 make_yellow ans
                   (fst (addr pod) @ '':'' @ str_int (snd (addr pod)) @ '' '' @ fst (progress g)))
            @ '')'' @ extra)"
  ultimately show ?thesis by (simp add: make_prompt_def Let_def)
qed

text \<open>
  With the escape sequences of \<open>sgr\<close>: the pod at \<^verbatim>\<open>("", 1)\<close> in state 6, first
  rendered with \<^verbatim>\<open>extra = "12345678"\<close> (visible width 20, 37 characters with the
  markup), then with \<^verbatim>\<open>extra = ""\<close> (visible width 12). The second line is padded
  with 25 spaces, not 8.
\<close>

theorem make_prompt_padding_witness:
  "length (strip sgr (LAST_PROMPT
      (snd (make_prompt sgr ((Pod_init ('''', 1) 0)\<lparr>state := Some (PodState 6)\<rparr>)
              ''12345678'' globals_init)))) = 20
   \<and> length (strip sgr (make_bold sgr (''Pod('' @ make_green sgr '':1 ARMD'' @ '')''))) = 12
   \<and> fst (make_prompt sgr ((Pod_init ('''', 1) 0)\<lparr>state := Some (PodState 6)\<rparr>) ''''
        (snd (make_prompt sgr ((Pod_init ('''', 1) 0)\<lparr>state := Some (PodState 6)\<rparr>)
                ''12345678'' globals_init)))
       = make_bold sgr (''Pod('' @ make_green sgr '':1 ARMD'' @ '')'') @ replicate 25 CHR '' ''"
proof -
  define P where "P = (Pod_init ('''', 1) 0)\<lparr>state := Some (PodState 6)\<rparr>"
  define T1 where "T1 = make_bold sgr (''Pod('' @ make_green sgr '':1 ARMD'' @ '')12345678'')"
  define T2 where "T2 = make_bold sgr (''Pod('' @ make_green sgr '':1 ARMD'' @ '')'')"
  define G1 where "G1 = snd (make_prompt sgr P ''12345678'' globals_init)"
  have e1: "T1 = make_bold sgr (''Pod('' @
            (case state P of
               Some st \<Rightarrow>
                 (if is_fault st then make_red sgr else make_green sgr)
                   (fst (addr P) @ '':'' @ str_int (snd (addr P)) @ '' '' @ short st)
             | None \<Rightarrow>
                 make_yellow sgr
                   (fst (addr P) @ '':'' @ str_int (snd (addr P)) @ '' '' @ fst (progress globals_init)))
            @ '')'' @ ''12345678'')"
    by (simp add: T1_def P_def Pod_init_def short_armed str_int_1)
  have e2: "T2 = make_bold sgr (''Pod('' @
            (case state P of
               Some st \<Rightarrow>
                 (if is_fault st then make_red sgr else make_green sgr)
                   (fst (addr P) @ '':'' @ str_int (snd (addr P)) @ '' '' @ short st)
             | None \<Rightarrow>
                 make_yellow sgr
                   (fst (addr P) @ '':'' @ str_int (snd (addr P)) @ '' '' @ fst (progress G1)))
            @ '')'' @ [])"
    by (simp add: T2_def P_def Pod_init_def short_armed str_int_1)
  have n0: "length (strip sgr (LAST_PROMPT globals_init)) = 0"
    by (simp add: globals_init_def sgr_def)
  have n1: "length T1 = 37" "length (strip sgr T1) = 20" "str_rstrip T1 = T1"
    by (simp_all add: T1_def sgr_def sgr_wrap_def ESC_def str_rstrip_def isspace_def)
  have n2: "length (strip sgr T2) = 12"
    by (simp add: T2_def sgr_def sgr_wrap_def ESC_def)
  have l1: "LAST_PROMPT G1 = T1"
    using make_prompt_padding [OF e1] n0 n1(3) by (simp add: G1_def)
  have "fst (make_prompt sgr P '''' G1) = T2 @ replicate 25 CHR '' ''"
    using make_prompt_padding [OF e2] by (simp add: l1 n1 n2)
  with l1 n1 n2 have
    "length (strip sgr (LAST_PROMPT G1)) = 20 \<and> length (strip sgr T2) = 12
     \<and> fst (make_prompt sgr P '''' G1) = T2 @ replicate 25 CHR '' ''"
    by simp
  then show ?thesis
    unfolding G1_def T2_def P_def .
qed

subsection \<open>\<^verbatim>\<open>Pod.handle_data\<close>\<close>

lemma handle_data_other:
  "\<not> contains data ''PONG'' \<Longrightarrow>
   handle_data ans pod g now data = (Inr True, pod, g, [StdoutWrite data])"
  by (simp add: handle_data_def)

lemma handle_data_no_field:
  "contains data ''PONG'' \<Longrightarrow> index (str_split CHR '':'' data) 1 = Inl e \<Longrightarrow>
   handle_data ans pod g now data =
     (Inl e, pod\<lparr>last_ping := now, recieved := recieved pod + 1\<rparr>, g, [])"
  by (simp add: handle_data_def)

lemma handle_data_bad_token:
  "contains data ''PONG'' \<Longrightarrow> index (str_split CHR '':'' data) 1 = Inr token \<Longrightarrow>
   py_int token = Inl e \<Longrightarrow>
   handle_data ans pod g now data =
     (Inl e, pod\<lparr>last_ping := now, recieved := recieved pod + 1\<rparr>, g, [])"
  by (simp add: handle_data_def PodState_init_def)

text \<open>
  A well-formed reply: the prompt is drawn again exactly when the state is new.
\<close>

lemma handle_data_pong:
  "contains data ''PONG'' \<Longrightarrow> index (str_split CHR '':'' data) 1 = Inr token \<Longrightarrow>
   py_int token = Inr n \<Longrightarrow>
   handle_data ans pod g now data =
     (if state pod = None \<or> state pod \<noteq> Some (PodState n) then
        (Inr False,
         pod\<lparr>last_ping := now, recieved := recieved pod + 1, state := Some (PodState n)\<rparr>,
         snd (make_prompt ans
                (pod\<lparr>last_ping := now, recieved := recieved pod + 1, state := Some (PodState n)\<rparr>)
                ''> '' g),
         StdoutWrite [CHR 0x0D]
           # user_write (fst (make_prompt ans
                (pod\<lparr>last_ping := now, recieved := recieved pod + 1, state := Some (PodState n)\<rparr>)
                ''> '' g)))
      else
        (Inr False,
         pod\<lparr>last_ping := now, recieved := recieved pod + 1, state := Some (PodState n)\<rparr>,
         g, []))"
  by (cases "state pod")
     (auto simp add: handle_data_def PodState_init_def Let_def split: prod.splits PodState.splits)

lemma handle_data_raise:
  "fst (handle_data ans pod g now data) = Inl e \<Longrightarrow>
   snd (handle_data ans pod g now data) =
     (pod\<lparr>last_ping := now, recieved := recieved pod + 1\<rparr>, g, [])
   \<and> (e = IndexError \<or> e = ValueError)"
proof (cases "contains data ''PONG''")
  case False
  assume "fst (handle_data ans pod g now data) = Inl e"
  with False show ?thesis by (simp add: handle_data_other)
next
  case True
  assume r: "fst (handle_data ans pod g now data) = Inl e"
  show ?thesis
  proof (cases "index (str_split CHR '':'' data) 1")
    case (Inl e')
    then have "e' = IndexError" by (simp add: index_def split: if_splits)
    then show ?thesis using True Inl r by (simp add: handle_data_no_field)
  next
    case (Inr token)
    show ?thesis
    proof (cases "py_int token")
      case (Inl e')
      then have "e' = ValueError" by (rule py_int_error)
      then show ?thesis using True Inr Inl r by (simp add: handle_data_bad_token)
    next
      case n: (Inr n)
      show ?thesis using True Inr n r by (simp add: handle_data_pong split: if_splits)
    qed
  qed
qed

lemma pong6:
  "contains ''PONG:6'' ''PONG''"
  "index (str_split CHR '':'' ''PONG:6'') 1 = Inr ''6''"
  "py_int ''6'' = Inr 6"
  by (simp_all add: index_def py_int_def int_strip_def int_isspace_def literal_def
      max_str_digits_def digits_def
      isdigit_def digit_val_def)

text \<open>
  Claim C1, as the code has it. The state token of a reply is the ordinal of the
  state, so the reply that reports ARMED is \<^verbatim>\<open>PONG:6\<close>. On a session with no known
  state, \<^verbatim>\<open>handle_data("PONG:6")\<close> at time \<open>ta\<close> sets \<^verbatim>\<open>last_ping\<close> to \<open>ta\<close>, adds one
  to \<^verbatim>\<open>recieved\<close>, sets the state to ordinal 6, whose name is ARMED, writes a carriage
  return and the prompt rendered for the new state, and returns \<^verbatim>\<open>False\<close>. The same
  payload again, at time \<open>tb\<close>, writes nothing: it sets \<^verbatim>\<open>last_ping\<close> to \<open>tb\<close>, adds
  one to \<^verbatim>\<open>recieved\<close> and returns \<^verbatim>\<open>False\<close>. In general a reply with a token that
  \<^verbatim>\<open>int\<close> reads as \<open>n\<close> writes the prompt if and only if the known state is not \<open>n\<close>.
\<close>

theorem handle_data_pong_ordinal:
  "(state pod = None \<longrightarrow>
      str_PodState (PodState 6) = ''ARMED''
      \<and> handle_data ans pod g ta ''PONG:6'' =
          (Inr False,
           pod\<lparr>last_ping := ta, recieved := recieved pod + 1, state := Some (PodState 6)\<rparr>,
           snd (make_prompt ans
                  (pod\<lparr>last_ping := ta, recieved := recieved pod + 1, state := Some (PodState 6)\<rparr>)
                  ''> '' g),
           [StdoutWrite [CHR 0x0D],
            StdoutWrite (fst (make_prompt ans
                  (pod\<lparr>last_ping := ta, recieved := recieved pod + 1, state := Some (PodState 6)\<rparr>)
                  ''> '' g)),
            StdoutFlush])
      \<and> handle_data ans
            (pod\<lparr>last_ping := ta, recieved := recieved pod + 1, state := Some (PodState 6)\<rparr>)
            gb tb ''PONG:6'' =
          (Inr False,
           pod\<lparr>last_ping := tb, recieved := recieved pod + 2, state := Some (PodState 6)\<rparr>,
           gb, []))
   \<and> (contains data ''PONG'' \<and> index (str_split CHR '':'' data) 1 = Inr token
        \<and> py_int token = Inr n \<longrightarrow>
        (snd (snd (snd (handle_data ans pod g now data))) \<noteq> []) = (state pod \<noteq> Some (PodState n)))"
proof -
  have name: "str_PodState (PodState 6) = ''ARMED''"
    by (simp add: str_PodState_def MAP_def)
  have first: "state pod = None \<Longrightarrow> handle_data ans pod g ta ''PONG:6'' =
          (Inr False,
           pod\<lparr>last_ping := ta, recieved := recieved pod + 1, state := Some (PodState 6)\<rparr>,
           snd (make_prompt ans
                  (pod\<lparr>last_ping := ta, recieved := recieved pod + 1, state := Some (PodState 6)\<rparr>)
                  ''> '' g),
           [StdoutWrite [CHR 0x0D],
            StdoutWrite (fst (make_prompt ans
                  (pod\<lparr>last_ping := ta, recieved := recieved pod + 1, state := Some (PodState 6)\<rparr>)
                  ''> '' g)),
            StdoutFlush])"
    by (simp add: handle_data_pong [OF pong6] user_write_def)
  have second: "handle_data ans
            (pod\<lparr>last_ping := ta, recieved := recieved pod + 1, state := Some (PodState 6)\<rparr>)
            gb tb ''PONG:6'' =
          (Inr False,
           pod\<lparr>last_ping := tb, recieved := recieved pod + 2, state := Some (PodState 6)\<rparr>,
           gb, [])"
    by (simp add: handle_data_pong [OF pong6])
  have gen: "contains data ''PONG'' \<and> index (str_split CHR '':'' data) 1 = Inr token
        \<and> py_int token = Inr n \<longrightarrow>
        (snd (snd (snd (handle_data ans pod g now data))) \<noteq> []) = (state pod \<noteq> Some (PodState n))"
    by (auto simp add: handle_data_pong user_write_def)
  from name first second gen show ?thesis by blast
qed

theorem handle_data_pong_ordinal_witness:
  "state (Pod_init (''127.0.0.1'', 7779) 0) = None
   \<and> fst (handle_data sgr (Pod_init (''127.0.0.1'', 7779) 0) globals_init 5 ''PONG:6'') = Inr False
   \<and> fst (snd (handle_data sgr (Pod_init (''127.0.0.1'', 7779) 0) globals_init 5 ''PONG:6''))
       = \<lparr>sock = None, addr = (''127.0.0.1'', 7779), last_ping = 5, recieved = 1,
          state = Some (PodState 6)\<rparr>
   \<and> snd (snd (snd (handle_data sgr (Pod_init (''127.0.0.1'', 7779) 0) globals_init 5 ''PONG:6'')))
       \<noteq> []
   \<and> snd (snd (snd (handle_data sgr
        \<lparr>sock = None, addr = (''127.0.0.1'', 7779), last_ping = 5, recieved = 1,
          state = Some (PodState 6)\<rparr> globals_init 9 ''PONG:6''))) = []"
  using handle_data_pong_ordinal [where pod = "Pod_init (''127.0.0.1'', 7779) 0" and ans = sgr
      and g = globals_init and ta = 5 and gb = globals_init and tb = 9 and data = "''PONG:6''"
      and token = "''6''" and n = 6 and now = 5]
    handle_data_pong_ordinal [where pod = "\<lparr>sock = None, addr = (''127.0.0.1'', 7779),
        last_ping = 5, recieved = 1, state = Some (PodState 6)\<rparr>" and ans = sgr
      and g = globals_init and ta = 5 and gb = globals_init and tb = 9 and data = "''PONG:6''"
      and token = "''6''" and n = 6 and now = 9]
  by (simp add: Pod_init_def pong6)

text \<open>
  The claim as the spec words it, with the payload \<^verbatim>\<open>PONG:ARMED\<close>, fails in the code:
  \<^verbatim>\<open>int("ARMED")\<close> raises \<^verbatim>\<open>ValueError\<close>, the state stays unknown and nothing is
  written.
\<close>

theorem handle_data_name_counterexample:
  "handle_data sgr (Pod_init (''127.0.0.1'', 7779) 0) globals_init 5 ''PONG:ARMED'' =
     (Inl ValueError,
      \<lparr>sock = None, addr = (''127.0.0.1'', 7779), last_ping = 5, recieved = 1, state = None\<rparr>,
      globals_init, [])"
proof -
  have "contains ''PONG:ARMED'' ''PONG''" by simp
  moreover have "index (str_split CHR '':'' ''PONG:ARMED'') 1 = Inr ''ARMED''"
    by (simp add: index_def)
  moreover have "py_int ''ARMED'' = Inl ValueError"
    by (simp add: py_int_def int_strip_def int_isspace_def literal_def max_str_digits_def
        digits_def isdigit_def)
  ultimately show ?thesis
    by (simp add: handle_data_bad_token Pod_init_def)
qed

text \<open>
  Claim C9. \<^verbatim>\<open>handle_data\<close> returns \<^verbatim>\<open>True\<close> if and only if \<^verbatim>\<open>PONG\<close> occurs nowhere in
  the data; the data is then written to standard output as it is. Data with \<^verbatim>\<open>PONG\<close>
  anywhere inside takes the branch of the liveness reply: \<^verbatim>\<open>last_ping\<close> becomes \<open>now\<close>,
  \<^verbatim>\<open>recieved\<close> grows by one, and what is written is nothing, or a carriage return and
  the prompt; the data itself is not handed to standard output.
\<close>

theorem handle_data_classification:
  "(fst (handle_data ans pod g now data) = Inr True) = (\<not> (\<exists>u v. data = u @ ''PONG'' @ v))
   \<and> (\<not> (\<exists>u v. data = u @ ''PONG'' @ v) \<longrightarrow>
        handle_data ans pod g now data = (Inr True, pod, g, [StdoutWrite data]))
   \<and> ((\<exists>u v. data = u @ ''PONG'' @ v) \<longrightarrow>
        last_ping (fst (snd (handle_data ans pod g now data))) = now
        \<and> recieved (fst (snd (handle_data ans pod g now data))) = recieved pod + 1
        \<and> (snd (snd (snd (handle_data ans pod g now data))) = []
           \<or> snd (snd (snd (handle_data ans pod g now data))) =
               StdoutWrite [CHR 0x0D]
                 # user_write (fst (make_prompt ans (fst (snd (handle_data ans pod g now data)))
                                      ''> '' g))))"
proof (cases "contains data ''PONG''")
  case False
  then have "\<not> (\<exists>u v. data = u @ ''PONG'' @ v)" by (simp add: contains_iff)
  then show ?thesis using False by (simp add: handle_data_other)
next
  case True
  then have ex: "\<exists>u v. data = u @ ''PONG'' @ v" by (simp add: contains_iff)
  show ?thesis
  proof (cases "index (str_split CHR '':'' data) 1")
    case (Inl e)
    then show ?thesis using True ex by (simp add: handle_data_no_field)
  next
    case (Inr token)
    show ?thesis
    proof (cases "py_int token")
      case (Inl e)
      then show ?thesis using True ex Inr by (simp add: handle_data_bad_token)
    next
      case n: (Inr n)
      show ?thesis using True ex Inr n by (simp add: handle_data_pong)
    qed
  qed
qed

theorem handle_data_classification_witness:
  "''telemetry PONG:3 text'' = ''telemetry '' @ ''PONG'' @ '':3 text''
   \<and> fst (handle_data sgr (Pod_init (''127.0.0.1'', 7779) 0) globals_init 5 ''telemetry PONG:3 text'')
       \<noteq> Inr True
   \<and> recieved (fst (snd (handle_data sgr (Pod_init (''127.0.0.1'', 7779) 0) globals_init 5
        ''telemetry PONG:3 text''))) = 1
   \<and> handle_data sgr (Pod_init (''127.0.0.1'', 7779) 0) globals_init 5 ''telemetry'' =
       (Inr True, Pod_init (''127.0.0.1'', 7779) 0, globals_init, [StdoutWrite ''telemetry''])"
proof -
  have a: "\<exists>u v. ''telemetry PONG:3 text'' = u @ ''PONG'' @ v"
    by (rule exI [of _ "''telemetry ''"], rule exI [of _ "'':3 text''"]) simp
  have b: "\<not> (\<exists>u v. ''telemetry'' = u @ ''PONG'' @ v)"
    unfolding contains_iff [symmetric] by simp
  show ?thesis
    using a b
      handle_data_classification [of sgr "Pod_init (''127.0.0.1'', 7779) 0" globals_init 5
        "''telemetry PONG:3 text''"]
      handle_data_classification [of sgr "Pod_init (''127.0.0.1'', 7779) 0" globals_init 5
        "''telemetry''"]
    by (simp add: Pod_init_def)
qed

text \<open>
  Claim C10, as the code has it. The state token is field 1 of \<^verbatim>\<open>data.split(":")\<close>:
  the text between the first colon and the next colon, or the end of the data. For
  data that contains \<^verbatim>\<open>PONG\<close>: without any colon \<^verbatim>\<open>handle_data\<close> raises
  \<^verbatim>\<open>IndexError\<close>, and with a token that \<^verbatim>\<open>int\<close> rejects it raises \<^verbatim>\<open>ValueError\<close>. In
  both cases, and whenever \<^verbatim>\<open>handle_data\<close> raises at all, \<^verbatim>\<open>last_ping\<close> has become
  \<open>now\<close> and \<^verbatim>\<open>recieved\<close> has grown by one, the state is what it was and nothing
  has been written.
\<close>

theorem handle_data_not_atomic:
  "data = u @ ''PONG'' @ v \<Longrightarrow>
   (CHR '':'' \<notin> set data \<longrightarrow>
      handle_data ans pod g now data =
        (Inl IndexError, pod\<lparr>last_ping := now, recieved := recieved pod + 1\<rparr>, g, []))
   \<and> (data = a @ CHR '':'' # tok @ rest \<and> CHR '':'' \<notin> set a \<and> CHR '':'' \<notin> set tok
        \<and> (rest = [] \<or> (\<exists>r. rest = CHR '':'' # r)) \<and> py_int tok = Inl e \<longrightarrow>
      handle_data ans pod g now data =
        (Inl ValueError, pod\<lparr>last_ping := now, recieved := recieved pod + 1\<rparr>, g, []))
   \<and> (fst (handle_data ans pod g now data) = Inl e' \<longrightarrow>
        last_ping (fst (snd (handle_data ans pod g now data))) = now
        \<and> recieved (fst (snd (handle_data ans pod g now data))) = recieved pod + 1
        \<and> state (fst (snd (handle_data ans pod g now data))) = state pod
        \<and> snd (snd (snd (handle_data ans pod g now data))) = [])"
proof -
  assume d: "data = u @ ''PONG'' @ v"
  then have c: "contains data ''PONG''" unfolding contains_iff by blast
  have one: "CHR '':'' \<notin> set data \<longrightarrow>
      handle_data ans pod g now data =
        (Inl IndexError, pod\<lparr>last_ping := now, recieved := recieved pod + 1\<rparr>, g, [])"
  proof
    assume "CHR '':'' \<notin> set data"
    then have "index (str_split CHR '':'' data) 1 = Inl IndexError"
      by (simp add: str_split_no_sep index_def)
    with c show "handle_data ans pod g now data =
        (Inl IndexError, pod\<lparr>last_ping := now, recieved := recieved pod + 1\<rparr>, g, [])"
      by (rule handle_data_no_field)
  qed
  have two: "data = a @ CHR '':'' # tok @ rest \<and> CHR '':'' \<notin> set a \<and> CHR '':'' \<notin> set tok
        \<and> (rest = [] \<or> (\<exists>r. rest = CHR '':'' # r)) \<and> py_int tok = Inl e \<longrightarrow>
      handle_data ans pod g now data =
        (Inl ValueError, pod\<lparr>last_ping := now, recieved := recieved pod + 1\<rparr>, g, [])"
  proof
    assume h: "data = a @ CHR '':'' # tok @ rest \<and> CHR '':'' \<notin> set a \<and> CHR '':'' \<notin> set tok
        \<and> (rest = [] \<or> (\<exists>r. rest = CHR '':'' # r)) \<and> py_int tok = Inl e"
    then have "index (str_split CHR '':'' data) 1 = Inr tok"
      using str_split_field1 [of "CHR '':''" a tok rest] by simp
    moreover from h have "py_int tok = Inl ValueError" using py_int_error by blast
    ultimately show "handle_data ans pod g now data =
        (Inl ValueError, pod\<lparr>last_ping := now, recieved := recieved pod + 1\<rparr>, g, [])"
      using c by (simp add: handle_data_bad_token)
  qed
  have three: "fst (handle_data ans pod g now data) = Inl e' \<longrightarrow>
        last_ping (fst (snd (handle_data ans pod g now data))) = now
        \<and> recieved (fst (snd (handle_data ans pod g now data))) = recieved pod + 1
        \<and> state (fst (snd (handle_data ans pod g now data))) = state pod
        \<and> snd (snd (snd (handle_data ans pod g now data))) = []"
    using handle_data_raise [of ans pod g now data e'] by simp
  from one two three show ?thesis by blast
qed

theorem handle_data_not_atomic_witness:
  "''PONG'' = [] @ ''PONG'' @ [] \<and> CHR '':'' \<notin> set ''PONG''
   \<and> handle_data sgr (Pod_init (''127.0.0.1'', 7779) 0) globals_init 5 ''PONG'' =
       (Inl IndexError,
        \<lparr>sock = None, addr = (''127.0.0.1'', 7779), last_ping = 5, recieved = 1, state = None\<rparr>,
        globals_init, [])
   \<and> ''PONG:x7:8'' = [] @ ''PONG'' @ '':x7:8''
   \<and> ''PONG:x7:8'' = ''PONG'' @ CHR '':'' # ''x7'' @ '':8''
   \<and> py_int ''x7'' = Inl ValueError
   \<and> handle_data sgr (Pod_init (''127.0.0.1'', 7779) 0) globals_init 5 ''PONG:x7:8'' =
       (Inl ValueError,
        \<lparr>sock = None, addr = (''127.0.0.1'', 7779), last_ping = 5, recieved = 1, state = None\<rparr>,
        globals_init, [])
   \<and> py_int [CHR 0x1C, CHR ''6''] = Inl ValueError
   \<and> handle_data sgr (Pod_init (''127.0.0.1'', 7779) 0) globals_init 5
        (''PONG:'' @ [CHR 0x1C, CHR ''6'']) =
       (Inl ValueError,
        \<lparr>sock = None, addr = (''127.0.0.1'', 7779), last_ping = 5, recieved = 1, state = None\<rparr>,
        globals_init, [])"
proof -
  have p: "py_int ''x7'' = Inl ValueError"
    by (simp add: py_int_def int_strip_def int_isspace_def literal_def max_str_digits_def
        digits_def isdigit_def)
  show ?thesis
    using p py_int_fs6
      handle_data_not_atomic [where data = "''PONG''" and u = "[]" and v = "[]" and ans = sgr
        and pod = "Pod_init (''127.0.0.1'', 7779) 0" and g = globals_init and now = 5]
      handle_data_not_atomic [where data = "''PONG:x7:8''" and u = "[]" and v = "'':x7:8''"
        and a = "''PONG''" and tok = "''x7''" and rest = "'':8''" and e = ValueError
        and ans = sgr and pod = "Pod_init (''127.0.0.1'', 7779) 0" and g = globals_init
        and now = 5]
      handle_data_not_atomic [where data = "''PONG:'' @ [CHR 0x1C, CHR ''6'']" and u = "[]"
        and v = "'':'' @ [CHR 0x1C, CHR ''6'']"
        and a = "''PONG''" and tok = "[CHR 0x1C, CHR ''6'']" and rest = "[]" and e = ValueError
        and ans = sgr and pod = "Pod_init (''127.0.0.1'', 7779) 0" and g = globals_init
        and now = 5]
    by (simp add: Pod_init_def)
qed

text \<open>
  The claim as worded, with the whole text after the first colon as the token,
  fails on a reply with a second colon: in \<^verbatim>\<open>PONG:6:abc\<close> that text is \<^verbatim>\<open>6:abc\<close>, which
  \<^verbatim>\<open>int\<close> rejects, yet \<^verbatim>\<open>handle_data\<close> returns normally and sets the state to 6.
\<close>

theorem handle_data_second_colon_counterexample:
  "py_int ''6:abc'' = Inl ValueError
   \<and> fst (handle_data sgr (Pod_init (''127.0.0.1'', 7779) 0) globals_init 5 ''PONG:6:abc'')
       = Inr False
   \<and> fst (snd (handle_data sgr (Pod_init (''127.0.0.1'', 7779) 0) globals_init 5 ''PONG:6:abc''))
       = \<lparr>sock = None, addr = (''127.0.0.1'', 7779), last_ping = 5, recieved = 1,
          state = Some (PodState 6)\<rparr>"
proof -
  have "contains ''PONG:6:abc'' ''PONG''" by simp
  moreover have "index (str_split CHR '':'' ''PONG:6:abc'') 1 = Inr ''6''"
    by (simp add: index_def)
  moreover note pong6(3)
  ultimately have "handle_data sgr (Pod_init (''127.0.0.1'', 7779) 0) globals_init 5 ''PONG:6:abc''
    = (Inr False,
         (Pod_init (''127.0.0.1'', 7779) 0)\<lparr>last_ping := 5, recieved := recieved (Pod_init (''127.0.0.1'', 7779) 0) + 1, state := Some (PodState 6)\<rparr>,
         snd (make_prompt sgr
                ((Pod_init (''127.0.0.1'', 7779) 0)\<lparr>last_ping := 5, recieved := recieved (Pod_init (''127.0.0.1'', 7779) 0) + 1, state := Some (PodState 6)\<rparr>)
                ''> '' globals_init),
         StdoutWrite [CHR 0x0D]
           # user_write (fst (make_prompt sgr
                ((Pod_init (''127.0.0.1'', 7779) 0)\<lparr>last_ping := 5, recieved := recieved (Pod_init (''127.0.0.1'', 7779) 0) + 1, state := Some (PodState 6)\<rparr>)
                ''> '' globals_init)))"
    by (simp add: handle_data_pong Pod_init_def)
  moreover have "py_int ''6:abc'' = Inl ValueError"
    by (simp add: py_int_def int_strip_def int_isspace_def literal_def max_str_digits_def digits_def isdigit_def
        digit_val_def)
  ultimately show ?thesis by (simp add: Pod_init_def)
qed

subsection \<open>\<^verbatim>\<open>Heart\<close>\<close>







end
